theory Spec2Isabelle
  imports Complex_Main
begin

section \<open>Humanforce to Google Calendar sync: the upload pass of sync.py\<close>

text \<open>
  The development embeds \<^verbatim>\<open>upload_events_to_gcal\<close> of \<^verbatim>\<open>sync.py\<close> (lines 259-317)
  and the history helpers \<^verbatim>\<open>_load_history\<close> and \<^verbatim>\<open>_save_history\<close> (lines 114-127).
  The Google Calendar service, the pytz zone database and the result of
  \<^verbatim>\<open>get_calendar_service\<close> are collaborators outside the repository: they are
  parameters of the model.

  \<^verbatim>\<open>HumanForce_Sync.py\<close> is the earlier stand-alone script. Its function of the same
  name (lines 116-171) normalizes times and builds the body by the same lines, before
  its \<^verbatim>\<open>try\<close> statement; it is embedded below under the prefix \<open>legacy\<close>.
\<close>

subsection \<open>Python exceptions\<close>

text \<open>
  Every exception that the modelled lines can meet. \<open>Fault\<close> carries the text of an
  exception raised by a collaborator (transport error, HTTP error of the store,
  missing credentials).
\<close>

datatype exn =
    AttributeError
  | TypeError
  | ValueError
  | KeyError string
  | UnknownTimeZoneError string
  | Fault string

subsection \<open>Dates and times\<close>

text \<open>
  Times are counted in microseconds, the resolution of Python's \<^verbatim>\<open>datetime\<close>. A
  \<^verbatim>\<open>tzinfo\<close> object is represented by what the code reads of it: its text
  (\<^verbatim>\<open>str(start.tzinfo)\<close>) and its UTC offset, which may depend on the wall clock
  it is asked about. \<^verbatim>\<open>total_seconds\<close> is the exact quotient; Python rounds it to a
  float, which does not change its comparison with 18000.
\<close>

record tzinfo =
  tz_str :: string
  utcoffset :: "int \<Rightarrow> int"

text \<open>A \<^verbatim>\<open>datetime\<close>: wall-clock fields and the \<^verbatim>\<open>tzinfo\<close> attribute (\<open>None\<close> when naive).\<close>

record pydatetime =
  wall :: int
  tzinfo :: "tzinfo option"

text \<open>
  \<^verbatim>\<open>component.get("dtstart").dt\<close> is a \<^verbatim>\<open>datetime\<close> or, for an all-day entry, a
  \<^verbatim>\<open>date\<close> (a day number; it has no \<^verbatim>\<open>tzinfo\<close> attribute).
\<close>

datatype dt_value = A_datetime pydatetime | A_date int

text \<open>
  The text of a \<^verbatim>\<open>dateTime\<close> field is represented by its reading: an ISO text of a
  wall clock with or without a UTC offset (a trailing \<^verbatim>\<open>Z\<close> is the offset 0, which
  is what \<^verbatim>\<open>replace('Z', '+00:00')\<close> makes of it), the empty text, or any other text,
  which \<^verbatim>\<open>datetime.fromisoformat\<close> rejects.
\<close>

datatype iso_text = Iso_datetime int "int option" | Iso_empty | Iso_malformed

definition timedelta_hours :: "int \<Rightarrow> int" where
  "timedelta_hours h = h * 3600000000"

definition total_seconds :: "int \<Rightarrow> real" where
  "total_seconds td = real_of_int td / 1000000"

text \<open>
  \<^verbatim>\<open>dt - timedelta\<close> and \<^verbatim>\<open>dt + timedelta\<close>: wall-clock arithmetic, same \<^verbatim>\<open>tzinfo\<close>.
  Times are taken within the range that \<^verbatim>\<open>datetime\<close> arithmetic supports (years 1 to
  9999); at its limits Python raises \<^verbatim>\<open>OverflowError\<close>, which is not modelled.
\<close>

definition dt_minus :: "pydatetime \<Rightarrow> int \<Rightarrow> pydatetime" where
  "dt_minus d td = d\<lparr>wall := wall d - td\<rparr>"

definition dt_plus :: "pydatetime \<Rightarrow> int \<Rightarrow> pydatetime" where
  "dt_plus d td = d\<lparr>wall := wall d + td\<rparr>"

definition isoformat :: "pydatetime \<Rightarrow> iso_text" where
  "isoformat d = Iso_datetime (wall d) (map_option (\<lambda>z. utcoffset z (wall d)) (tzinfo d))"

definition tzinfo_str :: "tzinfo option \<Rightarrow> string" where
  "tzinfo_str z = (case z of None \<Rightarrow> ''None'' | Some t \<Rightarrow> tz_str t)"

text \<open>
  \<^verbatim>\<open>datetime.fromisoformat\<close>: the wall clock and the offset of the parsed value. Its
  \<^verbatim>\<open>tzinfo\<close> is a fresh \<^verbatim>\<open>datetime.timezone\<close> of that offset, of which the code reads
  nothing but the offset, through the subtraction below.
\<close>

definition fromisoformat :: "iso_text \<Rightarrow> exn + (int \<times> int option)" where
  "fromisoformat t =
     (case t of Iso_datetime w off \<Rightarrow> Inr (w, off) | Iso_empty \<Rightarrow> Inl ValueError
      | Iso_malformed \<Rightarrow> Inl ValueError)"

text \<open>
  \<^verbatim>\<open>start - estart_dt\<close>: two naive values give the difference of the wall clocks, two
  aware values (their \<^verbatim>\<open>tzinfo\<close> objects are never the same object here) the
  difference of the instants; mixing the two raises \<^verbatim>\<open>TypeError\<close>.
\<close>

definition instant :: "pydatetime \<Rightarrow> int" where
  "instant d = (case tzinfo d of None \<Rightarrow> wall d | Some z \<Rightarrow> wall d - utcoffset z (wall d))"

definition dt_sub :: "pydatetime \<Rightarrow> int \<times> int option \<Rightarrow> exn + int" where
  "dt_sub d p =
     (case (tzinfo d, snd p) of
        (None, None) \<Rightarrow> Inr (wall d - fst p)
      | (Some z, Some off) \<Rightarrow> Inr ((wall d - utcoffset z (wall d)) - (fst p - off))
      | (None, Some off) \<Rightarrow> Inl TypeError
      | (Some z, None) \<Rightarrow> Inl TypeError)"

text \<open>
  A pytz zone, as \<^verbatim>\<open>pytz.timezone(name)\<close> returns it: its name and the offset its
  rules give to a wall clock. \<^verbatim>\<open>localize\<close> attaches to a naive value a \<^verbatim>\<open>tzinfo\<close> of
  that fixed offset and leaves the wall clock as it is.
\<close>

record pytz_zone =
  zone :: string
  zone_offset :: "int \<Rightarrow> int"

definition pytz_timezone :: "(string \<Rightarrow> pytz_zone option) \<Rightarrow> string \<Rightarrow> exn + pytz_zone" where
  "pytz_timezone tzdb name =
     (case tzdb name of None \<Rightarrow> Inl (UnknownTimeZoneError name) | Some z \<Rightarrow> Inr z)"

definition localize :: "pytz_zone \<Rightarrow> pydatetime \<Rightarrow> pydatetime" where
  "localize tz d =
     d\<lparr>tzinfo := Some \<lparr>tz_str = zone tz, utcoffset = (\<lambda>_. zone_offset tz (wall d))\<rparr>\<rparr>"

text \<open>
  Lines 270-273, applied to \<open>start\<close> and to \<open>end\<close>:
  \<^verbatim>\<open>if isinstance(start, datetime) and start.tzinfo is None: start = timezone.localize(start)\<close>
\<close>

definition normalize :: "pytz_zone \<Rightarrow> dt_value \<Rightarrow> dt_value" where
  "normalize timezone v =
     (case v of
        A_datetime d \<Rightarrow> (if tzinfo d = None then A_datetime (localize timezone d) else v)
      | A_date n \<Rightarrow> v)"

subsection \<open>Run history\<close>

text \<open>
  An entry of \<^verbatim>\<open>history.json\<close>. The file is absent or unreadable (\<open>None\<close>, which
  \<^verbatim>\<open>_load_history\<close> reads as the empty list) or holds a list of entries, as
  \<^verbatim>\<open>_save_history\<close>, its only writer, leaves it.
\<close>

record entry =
  e_time :: string
  e_created :: int
  e_updated :: int
  e_errors :: int
  e_note :: string

definition HISTORY_MAX :: nat where
  "HISTORY_MAX = 100"

definition load_history :: "entry list option \<Rightarrow> entry list" where
  "load_history file = (case file of None \<Rightarrow> [] | Some entries \<Rightarrow> entries)"

text \<open>\<^verbatim>\<open>entries[-HISTORY_MAX:]\<close> keeps the last \<open>HISTORY_MAX\<close> entries, or all when there are fewer.\<close>

definition save_history :: "entry list \<Rightarrow> entry list option" where
  "save_history entries = Some (drop (length entries - HISTORY_MAX) entries)"

text \<open>
  \<^verbatim>\<open>_record_history\<close> (lines 818-827) and the headless path (lines 914-922): load,
  append one entry, save.
\<close>

definition record_history :: "entry list option \<Rightarrow> entry \<Rightarrow> entry list option" where
  "record_history file e = save_history (load_history file @ [e])"

subsection \<open>Events, payloads and the calendar service\<close>

text \<open>
  An event as \<^verbatim>\<open>parse_ical\<close> builds it (lines 206-212). The keys \<^verbatim>\<open>start\<close> and
  \<^verbatim>\<open>end\<close> are the fields \<open>dtstart\<close> and \<open>dtend\<close>. The key \<^verbatim>\<open>description\<close> is read
  with \<^verbatim>\<open>event.get\<close>, so it may be absent.
\<close>

record source_event =
  summary :: string
  dtstart :: dt_value
  dtend :: dt_value
  uid :: string
  description :: "string option"

text \<open>The body sent to the calendar (\<^verbatim>\<open>g_event\<close>, lines 275-280).\<close>

record g_time =
  dateTime :: iso_text
  timeZone :: string

record g_event =
  g_summary :: string
  g_start :: g_time
  g_end :: g_time
  g_description :: string

text \<open>
  An item of a list response, with the keys that the code reads through \<^verbatim>\<open>get\<close> or
  by index: \<^verbatim>\<open>id\<close>, \<^verbatim>\<open>summary\<close>, \<^verbatim>\<open>start.dateTime\<close> and, in the earlier script,
  \<^verbatim>\<open>end.dateTime\<close>; \<open>None\<close> is an absent key.
\<close>

record remote_event =
  r_id :: "string option"
  r_summary :: "string option"
  r_start_dateTime :: "iso_text option"
  r_end_dateTime :: "iso_text option"

record list_request =
  calendarId :: string
  timeMin :: iso_text
  timeMax :: iso_text
  singleEvents :: bool
  maxResults :: nat
  orderBy :: string

text \<open>
  The three calls made on the service. Each takes the state of the remote side and
  returns the new state with the response, or with the exception that
  \<^verbatim>\<open>execute()\<close> raises. The response of \<open>events_list\<close> is \<^verbatim>\<open>results.get('items', [])\<close>;
  the responses of the other two are not read.
\<close>

record 'w service =
  events_list :: "list_request \<Rightarrow> 'w \<Rightarrow> (exn + remote_event list) \<times> 'w"
  events_update :: "string \<Rightarrow> string \<Rightarrow> g_event \<Rightarrow> 'w \<Rightarrow> exn option \<times> 'w"
  events_insert :: "string \<Rightarrow> g_event \<Rightarrow> 'w \<Rightarrow> exn option \<times> 'w"

datatype call =
    List_call list_request
  | Update_call string string g_event
  | Insert_call string g_event

text \<open>The lines handed to \<^verbatim>\<open>on_log\<close> (to \<^verbatim>\<open>print\<close> in the earlier script), by their parts.\<close>

datatype log_line =
    Updated_line string pydatetime pydatetime
  | Created_line string pydatetime pydatetime
  | Error_line string exn

text \<open>
  What a run acts on: the world outside the function (the remote side and whatever
  the callback writes to), and two traces that the model keeps of the calls issued and
  of the lines handed to the callback.
\<close>

record 'w env =
  world :: 'w
  calls :: "call list"
  lines :: "log_line list"

text \<open>
  The callback \<^verbatim>\<open>on_log\<close>: it acts on the world and may raise. \<open>default_log\<close> is
  \<^verbatim>\<open>lambda *a, **k: None\<close>, the callback used when none is given.
\<close>

type_synonym 'w logger = "log_line \<Rightarrow> 'w \<Rightarrow> exn option \<times> 'w"

definition default_log :: "'w logger" where
  "default_log l w = (None, w)"

text \<open>One call \<^verbatim>\<open>log(...)\<close>: the line is handed over, and the call returns or raises.\<close>

definition call_log :: "'w logger \<Rightarrow> log_line \<Rightarrow> 'w env \<Rightarrow> exn option \<times> 'w env" where
  "call_log on_log l env =
     (fst (on_log l (world env)),
      env\<lparr>world := snd (on_log l (world env)), lines := lines env @ [l]\<rparr>)"

record stats =
  created :: int
  updated :: int
  errors :: int

record config =
  CALENDAR_ID :: string
  TIMEZONE :: string

subsection \<open>The upload pass\<close>

text \<open>
  Lines 275-280. Reading \<^verbatim>\<open>start.tzinfo\<close> or \<^verbatim>\<open>end.tzinfo\<close> of a \<^verbatim>\<open>date\<close> raises
  \<^verbatim>\<open>AttributeError\<close>; otherwise both values are \<^verbatim>\<open>datetime\<close>s and are returned with
  the body.
\<close>

definition build_g_event ::
  "source_event \<Rightarrow> dt_value \<Rightarrow> dt_value \<Rightarrow> exn + (pydatetime \<times> pydatetime \<times> g_event)" where
  "build_g_event event start end' =
     (case start of
        A_date n \<Rightarrow> Inl AttributeError
      | A_datetime s \<Rightarrow>
          (case end' of
             A_date n \<Rightarrow> Inl AttributeError
           | A_datetime e \<Rightarrow>
               Inr (s, e,
                 \<lparr>g_summary = summary event,
                  g_start = \<lparr>dateTime = isoformat s, timeZone = tzinfo_str (tzinfo s)\<rparr>,
                  g_end = \<lparr>dateTime = isoformat e, timeZone = tzinfo_str (tzinfo e)\<rparr>,
                  g_description =
                    (case description event of
                       None \<Rightarrow> ''Imported from Humanforce'' | Some d \<Rightarrow> d)\<rparr>)))"

text \<open>
  The matching loop, lines 295-303. A candidate without a \<^verbatim>\<open>dateTime\<close>, or with an
  empty one, is passed over; an exception of \<^verbatim>\<open>fromisoformat\<close> or of the subtraction
  leaves the loop.
\<close>

fun find_matched ::
  "pydatetime \<Rightarrow> string \<Rightarrow> remote_event list \<Rightarrow> exn + remote_event option" where
  "find_matched start smry [] = Inr None"
| "find_matched start smry (e # existing) =
     (case r_start_dateTime e of
        None \<Rightarrow> find_matched start smry existing
      | Some estart \<Rightarrow>
          if estart = Iso_empty then find_matched start smry existing
          else
            (case fromisoformat estart of
               Inl ex \<Rightarrow> Inl ex
             | Inr estart_dt \<Rightarrow>
                 (case dt_sub start estart_dt of
                    Inl ex \<Rightarrow> Inl ex
                  | Inr td \<Rightarrow>
                      if \<bar>total_seconds td\<bar> \<le> 18000 \<and> r_summary e = Some smry
                      then Inr (Some e)
                      else find_matched start smry existing)))"

text \<open>
  The body of the \<^verbatim>\<open>try\<close> statement, lines 283-312. It returns the exception that
  left it, if any, with the counters and the environment as they were at that point.
  A matched item has a \<^verbatim>\<open>start\<close> key, so \<^verbatim>\<open>if matched\<close> holds exactly when the loop
  found one; \<^verbatim>\<open>matched['id']\<close> raises \<^verbatim>\<open>KeyError\<close> when the item has no identifier.
  The call of \<^verbatim>\<open>log\<close> comes after the increment of the counter and is still inside
  the \<^verbatim>\<open>try\<close> statement.
\<close>

definition try_body ::
  "'w logger \<Rightarrow> 'w service \<Rightarrow> config \<Rightarrow> source_event \<Rightarrow> pydatetime \<Rightarrow> pydatetime \<Rightarrow>
     g_event \<Rightarrow> stats \<Rightarrow> 'w env \<Rightarrow> exn option \<times> stats \<times> 'w env" where
  "try_body on_log service cfg event start end' body st env =
     (let time_min = isoformat (dt_minus start (timedelta_hours 5));
          time_max = isoformat (dt_plus end' (timedelta_hours 5));
          req = \<lparr>calendarId = CALENDAR_ID cfg, timeMin = time_min, timeMax = time_max,
                 singleEvents = True, maxResults = 10, orderBy = ''startTime''\<rparr>;
          results = events_list service req (world env);
          env1 = env\<lparr>world := snd results, calls := calls env @ [List_call req]\<rparr>
      in case fst results of
           Inl ex \<Rightarrow> (Some ex, st, env1)
         | Inr existing \<Rightarrow>
             (case find_matched start (summary event) existing of
                Inl ex \<Rightarrow> (Some ex, st, env1)
              | Inr (Some matched) \<Rightarrow>
                  (case r_id matched of
                     None \<Rightarrow> (Some (KeyError ''id''), st, env1)
                   | Some event_id \<Rightarrow>
                       (let r = events_update service (CALENDAR_ID cfg) event_id body (world env1);
                            env2 = env1\<lparr>world := snd r,
                              calls := calls env1 @ [Update_call (CALENDAR_ID cfg) event_id body]\<rparr>
                        in case fst r of
                             Some ex \<Rightarrow> (Some ex, st, env2)
                           | None \<Rightarrow>
                               (fst (call_log on_log (Updated_line (summary event) start end') env2),
                                st\<lparr>updated := updated st + 1\<rparr>,
                                snd (call_log on_log (Updated_line (summary event) start end') env2))))
              | Inr None \<Rightarrow>
                  (let r = events_insert service (CALENDAR_ID cfg) body (world env1);
                       env2 = env1\<lparr>world := snd r,
                         calls := calls env1 @ [Insert_call (CALENDAR_ID cfg) body]\<rparr>
                   in case fst r of
                        Some ex \<Rightarrow> (Some ex, st, env2)
                      | None \<Rightarrow>
                          (fst (call_log on_log (Created_line (summary event) start end') env2),
                           st\<lparr>created := created st + 1\<rparr>,
                           snd (call_log on_log (Created_line (summary event) start end') env2)))))"

text \<open>
  The \<^verbatim>\<open>try\<close> statement with its handler, lines 282-315. The handler increments
  \<^verbatim>\<open>errors\<close> and calls \<^verbatim>\<open>log\<close>; an exception of that call leaves the function.
\<close>

definition try_except ::
  "'w logger \<Rightarrow> 'w service \<Rightarrow> config \<Rightarrow> source_event \<Rightarrow> pydatetime \<Rightarrow> pydatetime \<Rightarrow>
     g_event \<Rightarrow> stats \<Rightarrow> 'w env \<Rightarrow> (exn + stats) \<times> 'w env" where
  "try_except on_log service cfg event start end' body st env =
     (case try_body on_log service cfg event start end' body st env of
        (None, st1, env1) \<Rightarrow> (Inr st1, env1)
      | (Some ex, st1, env1) \<Rightarrow>
          (case fst (call_log on_log (Error_line (summary event) ex) env1) of
             None \<Rightarrow>
               (Inr (st1\<lparr>errors := errors st1 + 1\<rparr>),
                snd (call_log on_log (Error_line (summary event) ex) env1))
           | Some ex2 \<Rightarrow>
               (Inl ex2, snd (call_log on_log (Error_line (summary event) ex) env1))))"

text \<open>
  The \<^verbatim>\<open>for\<close> loop, lines 266-315. An exception raised before the \<^verbatim>\<open>try\<close> statement,
  or by the handler, leaves the loop and the function.
\<close>

fun upload_loop ::
  "'w logger \<Rightarrow> 'w service \<Rightarrow> config \<Rightarrow> pytz_zone \<Rightarrow> source_event list \<Rightarrow> stats \<Rightarrow>
     'w env \<Rightarrow> (exn + stats) \<times> 'w env" where
  "upload_loop on_log service cfg timezone [] st env = (Inr st, env)"
| "upload_loop on_log service cfg timezone (event # events) st env =
     (case build_g_event event (normalize timezone (dtstart event))
             (normalize timezone (dtend event)) of
        Inl ex \<Rightarrow> (Inl ex, env)
      | Inr (start, end', body) \<Rightarrow>
          (case try_except on_log service cfg event start end' body st env of
             (Inl ex, env1) \<Rightarrow> (Inl ex, env1)
           | (Inr st1, env1) \<Rightarrow> upload_loop on_log service cfg timezone events st1 env1))"

text \<open>
  \<^verbatim>\<open>upload_events_to_gcal\<close>, lines 259-317. \<open>get_calendar_service\<close> is the outcome of the
  call of that name and \<open>tzdb\<close> the zone database of pytz.
\<close>

definition upload_events_to_gcal ::
  "'w logger \<Rightarrow> exn + 'w service \<Rightarrow> (string \<Rightarrow> pytz_zone option) \<Rightarrow> config \<Rightarrow>
     source_event list \<Rightarrow> 'w env \<Rightarrow> (exn + stats) \<times> 'w env" where
  "upload_events_to_gcal on_log get_calendar_service tzdb cfg events env =
     (case get_calendar_service of
        Inl ex \<Rightarrow> (Inl ex, env)
      | Inr service \<Rightarrow>
          (case pytz_timezone tzdb (TIMEZONE cfg) of
             Inl ex \<Rightarrow> (Inl ex, env)
           | Inr timezone \<Rightarrow>
               upload_loop on_log service cfg timezone events
                 \<lparr>created = 0, updated = 0, errors = 0\<rparr> env))"

subsection \<open>The earlier script\<close>

text \<open>
  \<^verbatim>\<open>upload_events_to_gcal\<close> of \<^verbatim>\<open>HumanForce_Sync.py\<close>, lines 116-171. The calendar is
  the module constant, the zone is fixed, the lines go to \<^verbatim>\<open>print\<close> (a parameter
  here, as \<^verbatim>\<open>on_log\<close> is above), and nothing is counted or returned.
\<close>

definition legacy_CALENDAR_ID :: string where
  "legacy_CALENDAR_ID = ''your_calendar_id_here''"

text \<open>
  The matching loop, lines 151-160: a candidate needs a start and an end
  \<^verbatim>\<open>dateTime\<close>; its summary is not read.
\<close>

fun legacy_find_matched :: "pydatetime \<Rightarrow> remote_event list \<Rightarrow> exn + remote_event option" where
  "legacy_find_matched start [] = Inr None"
| "legacy_find_matched start (e # existing) =
     (case r_start_dateTime e of
        None \<Rightarrow> legacy_find_matched start existing
      | Some estart \<Rightarrow>
          (case r_end_dateTime e of
             None \<Rightarrow> legacy_find_matched start existing
           | Some eend \<Rightarrow>
               if estart = Iso_empty \<or> eend = Iso_empty then legacy_find_matched start existing
               else
                 (case fromisoformat estart of
                    Inl ex \<Rightarrow> Inl ex
                  | Inr estart_dt \<Rightarrow>
                      (case fromisoformat eend of
                         Inl ex \<Rightarrow> Inl ex
                       | Inr eend_dt \<Rightarrow>
                           (case dt_sub start estart_dt of
                              Inl ex \<Rightarrow> Inl ex
                            | Inr td \<Rightarrow>
                                if \<bar>total_seconds td\<bar> \<le> 18000 then Inr (Some e)
                                else legacy_find_matched start existing)))))"

text \<open>The body of the \<^verbatim>\<open>try\<close> statement, lines 138-168.\<close>

definition legacy_try_body ::
  "'w logger \<Rightarrow> 'w service \<Rightarrow> source_event \<Rightarrow> pydatetime \<Rightarrow> pydatetime \<Rightarrow> g_event \<Rightarrow>
     'w env \<Rightarrow> exn option \<times> 'w env" where
  "legacy_try_body print service event start end' body env =
     (let req = \<lparr>calendarId = legacy_CALENDAR_ID, timeMin = isoformat start,
                 timeMax = isoformat end', singleEvents = True, maxResults = 5,
                 orderBy = ''startTime''\<rparr>;
          results = events_list service req (world env);
          env1 = env\<lparr>world := snd results, calls := calls env @ [List_call req]\<rparr>
      in case fst results of
           Inl ex \<Rightarrow> (Some ex, env1)
         | Inr existing \<Rightarrow>
             (case legacy_find_matched start existing of
                Inl ex \<Rightarrow> (Some ex, env1)
              | Inr (Some matched) \<Rightarrow>
                  (case r_id matched of
                     None \<Rightarrow> (Some (KeyError ''id''), env1)
                   | Some event_id \<Rightarrow>
                       (let r = events_update service legacy_CALENDAR_ID event_id body (world env1);
                            env2 = env1\<lparr>world := snd r,
                              calls := calls env1 @ [Update_call legacy_CALENDAR_ID event_id body]\<rparr>
                        in case fst r of
                             Some ex \<Rightarrow> (Some ex, env2)
                           | None \<Rightarrow> call_log print (Updated_line (summary event) start end') env2))
              | Inr None \<Rightarrow>
                  (let r = events_insert service legacy_CALENDAR_ID body (world env1);
                       env2 = env1\<lparr>world := snd r,
                         calls := calls env1 @ [Insert_call legacy_CALENDAR_ID body]\<rparr>
                   in case fst r of
                        Some ex \<Rightarrow> (Some ex, env2)
                      | None \<Rightarrow> call_log print (Created_line (summary event) start end') env2)))"

text \<open>The \<^verbatim>\<open>try\<close> statement with its handler, lines 137-171.\<close>

definition legacy_try_except ::
  "'w logger \<Rightarrow> 'w service \<Rightarrow> source_event \<Rightarrow> pydatetime \<Rightarrow> pydatetime \<Rightarrow> g_event \<Rightarrow>
     'w env \<Rightarrow> exn option \<times> 'w env" where
  "legacy_try_except print service event start end' body env =
     (case legacy_try_body print service event start end' body env of
        (None, env1) \<Rightarrow> (None, env1)
      | (Some ex, env1) \<Rightarrow> call_log print (Error_line (summary event) ex) env1)"

text \<open>The loop, lines 120-171; \<open>None\<close> when it runs to its end.\<close>

fun legacy_upload_loop ::
  "'w logger \<Rightarrow> 'w service \<Rightarrow> pytz_zone \<Rightarrow> source_event list \<Rightarrow> 'w env \<Rightarrow>
     exn option \<times> 'w env" where
  "legacy_upload_loop print service timezone [] env = (None, env)"
| "legacy_upload_loop print service timezone (event # events) env =
     (case build_g_event event (normalize timezone (dtstart event))
             (normalize timezone (dtend event)) of
        Inl ex \<Rightarrow> (Some ex, env)
      | Inr (start, end', body) \<Rightarrow>
          (case legacy_try_except print service event start end' body env of
             (Some ex, env1) \<Rightarrow> (Some ex, env1)
           | (None, env1) \<Rightarrow> legacy_upload_loop print service timezone events env1))"

definition legacy_upload_events_to_gcal ::
  "'w logger \<Rightarrow> exn + 'w service \<Rightarrow> (string \<Rightarrow> pytz_zone option) \<Rightarrow> source_event list \<Rightarrow>
     'w env \<Rightarrow> exn option \<times> 'w env" where
  "legacy_upload_events_to_gcal print get_calendar_service tzdb events env =
     (case get_calendar_service of
        Inl ex \<Rightarrow> (Some ex, env)
      | Inr service \<Rightarrow>
          (case pytz_timezone tzdb ''Australia/Melbourne'' of
             Inl ex \<Rightarrow> (Some ex, env)
           | Inr timezone \<Rightarrow> legacy_upload_loop print service timezone events env))"

subsection \<open>The spec's matching rule and candidate classes\<close>

text \<open>\<^verbatim>\<open>isinstance(v, datetime)\<close>.\<close>

definition isinstance_datetime :: "dt_value \<Rightarrow> bool" where
  "isinstance_datetime v = (case v of A_datetime d \<Rightarrow> True | A_date n \<Rightarrow> False)"

text \<open>
  The rule of the spec, section 4.2, in its words: the candidate's start time differs
  from the source start time by at most 18000 seconds, and its summary text is exactly
  equal to the source summary. A candidate has a start time when its \<^verbatim>\<open>dateTime\<close> is
  an ISO text with an offset.
\<close>

definition qualifies :: "pydatetime \<Rightarrow> string \<Rightarrow> remote_event \<Rightarrow> bool" where
  "qualifies start smry e =
     (case r_start_dateTime e of
        Some (Iso_datetime w (Some off)) \<Rightarrow>
          \<bar>instant start - (w - off)\<bar> \<le> 18000 * 1000000 \<and> r_summary e = Some smry
      | _ \<Rightarrow> False)"

text \<open>A candidate whose start carries no \<^verbatim>\<open>dateTime\<close> value: the key is absent or its text empty.\<close>

definition no_dateTime :: "remote_event \<Rightarrow> bool" where
  "no_dateTime e = (r_start_dateTime e = None \<or> r_start_dateTime e = Some Iso_empty)"

definition zoned_dateTime :: "remote_event \<Rightarrow> bool" where
  "zoned_dateTime e =
     (case r_start_dateTime e of
        None \<Rightarrow> False
      | Some t \<Rightarrow>
          (case t of Iso_datetime w off \<Rightarrow> off \<noteq> None | Iso_empty \<Rightarrow> False
           | Iso_malformed \<Rightarrow> False))"

text \<open>
  The rule of the earlier script, lines 152-160: a candidate is passed over when its
  start or end \<^verbatim>\<open>dateTime\<close> is absent or empty; it is selected when its start is at most
  18000 seconds from the source start. Its summary plays no part.
\<close>

definition legacy_skipped :: "remote_event \<Rightarrow> bool" where
  "legacy_skipped e =
     (r_start_dateTime e = None \<or> r_start_dateTime e = Some Iso_empty
      \<or> r_end_dateTime e = None \<or> r_end_dateTime e = Some Iso_empty)"

definition legacy_readable :: "remote_event \<Rightarrow> bool" where
  "legacy_readable e =
     (zoned_dateTime e \<and>
      (case r_end_dateTime e of
         None \<Rightarrow> False
       | Some t \<Rightarrow>
           (case t of Iso_datetime w off \<Rightarrow> True | Iso_empty \<Rightarrow> False
            | Iso_malformed \<Rightarrow> False)))"

definition legacy_qualifies :: "pydatetime \<Rightarrow> remote_event \<Rightarrow> bool" where
  "legacy_qualifies start e =
     (legacy_readable e \<and>
      (case r_start_dateTime e of
         Some (Iso_datetime w (Some off)) \<Rightarrow> \<bar>instant start - (w - off)\<bar> \<le> 18000 * 1000000
       | _ \<Rightarrow> False))"

subsection \<open>A faithful remote store\<close>

text \<open>
  Modelled from the spec: the remote store of section 6, which is not part of the
  repository. It stores exactly what was inserted or updated: a list of bodies, each
  under the identifier it was given, in the order of insertion. It holds one
  calendar, whatever the calendar identifier of a call.
\<close>

type_synonym store = "(string \<times> g_event) list"

definition text_instant :: "iso_text \<Rightarrow> int option" where
  "text_instant t =
     (case t of Iso_datetime w (Some off) \<Rightarrow> Some (w - off) | Iso_datetime w None \<Rightarrow> None
      | Iso_empty \<Rightarrow> None | Iso_malformed \<Rightarrow> None)"

definition stored_start :: "string \<times> g_event \<Rightarrow> int option" where
  "stored_start se = text_instant (dateTime (g_start (snd se)))"

definition start_key :: "string \<times> g_event \<Rightarrow> int" where
  "start_key se = (case stored_start se of None \<Rightarrow> 0 | Some i \<Rightarrow> i)"

definition in_window :: "int \<Rightarrow> int \<Rightarrow> string \<times> g_event \<Rightarrow> bool" where
  "in_window lo hi se = (case stored_start se of None \<Rightarrow> False | Some i \<Rightarrow> lo \<le> i \<and> i \<le> hi)"

definition as_item :: "string \<times> g_event \<Rightarrow> remote_event" where
  "as_item se = \<lparr>r_id = Some (fst se), r_summary = Some (g_summary (snd se)),
     r_start_dateTime = Some (dateTime (g_start (snd se))),
     r_end_dateTime = Some (dateTime (g_end (snd se)))\<rparr>"

text \<open>
  Modelled from the spec: \<^verbatim>\<open>listInWindow\<close> returns the remote events whose start lies in
  \<open>[timeMin, timeMax]\<close>, ascending by start, at most \<open>maxResults\<close> of them. Bounds that are
  not zoned texts are refused.
\<close>

definition store_list :: "list_request \<Rightarrow> store \<Rightarrow> (exn + remote_event list) \<times> store" where
  "store_list req s =
     (case text_instant (timeMin req) of
        None \<Rightarrow> (Inl (Fault ''Bad Request''), s)
      | Some lo \<Rightarrow>
          (case text_instant (timeMax req) of
             None \<Rightarrow> (Inl (Fault ''Bad Request''), s)
           | Some hi \<Rightarrow>
               (Inr (map as_item
                  (take (maxResults req) (sort_key start_key (filter (in_window lo hi) s)))),
                s)))"

text \<open>An identifier longer than every identifier in use.\<close>

definition fresh_id :: "store \<Rightarrow> string" where
  "fresh_id s = replicate (Suc (foldr max (map (\<lambda>se. length (fst se)) s) 0)) (CHR ''e'')"

text \<open>Modelled from the spec: \<^verbatim>\<open>insert\<close> creates a new remote event and assigns it an identifier.\<close>

definition store_insert :: "string \<Rightarrow> g_event \<Rightarrow> store \<Rightarrow> exn option \<times> store" where
  "store_insert cal body s = (None, s @ [(fresh_id s, body)])"

text \<open>
  Modelled from the spec: \<^verbatim>\<open>update\<close> replaces the fields of an existing remote event;
  an unknown identifier is a store-side error.
\<close>

definition store_update :: "string \<Rightarrow> string \<Rightarrow> g_event \<Rightarrow> store \<Rightarrow> exn option \<times> store" where
  "store_update cal event_id body s =
     (if event_id \<in> fst ` set s
      then (None, map (\<lambda>se. if fst se = event_id then (event_id, body) else se) s)
      else (Some (Fault ''Not Found''), s))"

definition faithful_store :: "store service" where
  "faithful_store =
     \<lparr>events_list = store_list, events_update = store_update, events_insert = store_insert\<rparr>"

text \<open>A store whose \<^verbatim>\<open>insert\<close> fails, and a store whose every call fails.\<close>

definition insert_failing_store :: "store service" where
  "insert_failing_store =
     \<lparr>events_list = store_list, events_update = store_update,
      events_insert = (\<lambda>cal body s. (Some (Fault ''Service Unavailable''), s))\<rparr>"

definition unreachable_store :: "store service" where
  "unreachable_store =
     \<lparr>events_list = (\<lambda>req s. (Inl (Fault ''timed out''), s)),
      events_update = (\<lambda>cal event_id body s. (Some (Fault ''timed out''), s)),
      events_insert = (\<lambda>cal body s. (Some (Fault ''timed out''), s))\<rparr>"

subsection \<open>Two runs in a row: conditions on the batch and on the store\<close>





















subsection \<open>Sample values\<close>

definition sample_entry :: "nat \<Rightarrow> entry" where
  "sample_entry i = \<lparr>e_time = ''2025-08-14 10:00:00'', e_created = int i, e_updated = 0,
     e_errors = 0, e_note = ''ok''\<rparr>"

text \<open>A zone of fixed offset +11:00, in microseconds.\<close>

definition melbourne :: pytz_zone where
  "melbourne = \<lparr>zone = ''Australia/Melbourne'', zone_offset = (\<lambda>w. 39600000000)\<rparr>"

definition sample_config :: config where
  "sample_config = \<lparr>CALENDAR_ID = ''primary'', TIMEZONE = ''Australia/Melbourne''\<rparr>"

definition sample_tzdb :: "string \<Rightarrow> pytz_zone option" where
  "sample_tzdb name = (if name = ''Australia/Melbourne'' then Some melbourne else None)"

text \<open>
  Shifts by wall-clock hour of one day (2025-03-01, whose midnight is 1740787200 seconds
  after the epoch), naive as the calendar export gives them.
\<close>

definition at_hour :: "int \<Rightarrow> pydatetime" where
  "at_hour h = \<lparr>wall = (1740787200 + h * 3600) * 1000000, tzinfo = None\<rparr>"

definition shift :: "string \<Rightarrow> int \<Rightarrow> int \<Rightarrow> source_event" where
  "shift smry h1 h2 =
     \<lparr>summary = smry, dtstart = A_datetime (at_hour h1), dtend = A_datetime (at_hour h2),
      uid = ''uid'', description = Some ''Ward 3''\<rparr>"

definition all_day :: "string \<Rightarrow> source_event" where
  "all_day smry =
     \<lparr>summary = smry, dtstart = A_date 20148, dtend = A_date 20149,
      uid = ''uid'', description = None\<rparr>"

definition empty_env :: "store env" where
  "empty_env = \<lparr>world = [], calls = [], lines = []\<rparr>"

definition aware_hour :: "int \<Rightarrow> pydatetime" where
  "aware_hour h = localize melbourne (at_hour h)"

definition candidate :: "string \<Rightarrow> string \<Rightarrow> int \<Rightarrow> remote_event" where
  "candidate i smry secs =
     \<lparr>r_id = Some i, r_summary = Some smry,
      r_start_dateTime = Some (Iso_datetime ((1740787200 + secs) * 1000000) (Some 39600000000)),
      r_end_dateTime =
        Some (Iso_datetime ((1740787200 + secs + 3600) * 1000000) (Some 39600000000))\<rparr>"

definition all_day_candidate :: "string \<Rightarrow> string \<Rightarrow> remote_event" where
  "all_day_candidate i smry =
     \<lparr>r_id = Some i, r_summary = Some smry, r_start_dateTime = None, r_end_dateTime = None\<rparr>"

definition payload :: "string \<Rightarrow> int \<Rightarrow> int \<Rightarrow> g_event" where
  "payload smry h1 h2 =
     \<lparr>g_summary = smry,
      g_start = \<lparr>dateTime = Iso_datetime ((1740787200 + h1 * 3600) * 1000000) (Some 39600000000),
                 timeZone = ''Australia/Melbourne''\<rparr>,
      g_end = \<lparr>dateTime = Iso_datetime ((1740787200 + h2 * 3600) * 1000000) (Some 39600000000),
               timeZone = ''Australia/Melbourne''\<rparr>,
      g_description = ''Ward 3''\<rparr>"

definition bad_config :: config where
  "bad_config = \<lparr>CALENDAR_ID = ''primary'', TIMEZONE = ''Mars/Olympus''\<rparr>"



text \<open>
  A callback that raises on the line of a created event, and one that raises on the
  line of an error; both take every other line.
\<close>

definition created_failing_log :: "store logger" where
  "created_failing_log l w =
     (case l of
        Created_line smry s e \<Rightarrow> (Some (Fault ''log unavailable''), w)
      | Updated_line smry s e \<Rightarrow> (None, w)
      | Error_line smry ex \<Rightarrow> (None, w))"

definition error_failing_log :: "store logger" where
  "error_failing_log l w =
     (case l of
        Created_line smry s e \<Rightarrow> (None, w)
      | Updated_line smry s e \<Rightarrow> (None, w)
      | Error_line smry ex \<Rightarrow> (Some (Fault ''log unavailable''), w))"

section \<open>Properties\<close>

subsection \<open>Run history\<close>

lemma keep_last_snoc:
  "drop (length (drop (length xs - n) xs @ [e]) - n) (drop (length xs - n) xs @ [e])
     = drop (length (xs @ [e]) - n) (xs @ [e])"
  by (cases "n \<le> length xs") (auto simp: Suc_diff_le)

lemma load_record_history:
  "load_history (record_history h e)
     = drop (length (load_history h @ [e]) - HISTORY_MAX) (load_history h @ [e])"
  by (simp add: record_history_def save_history_def load_history_def)

lemma load_foldl_record_history:
  "load_history (foldl record_history h (es @ [e]))
     = drop (length (load_history h @ es @ [e]) - HISTORY_MAX) (load_history h @ es @ [e])"
proof (induction es arbitrary: e rule: rev_induct)
  case Nil
  show ?case using load_record_history [of h e] by simp
next
  case (snoc x xs)
  have "load_history (foldl record_history h ((xs @ [x]) @ [e]))
      = load_history (record_history (foldl record_history h (xs @ [x])) e)"
    by simp
  also have "\<dots> = drop (length (load_history (foldl record_history h (xs @ [x])) @ [e]) - HISTORY_MAX)
        (load_history (foldl record_history h (xs @ [x])) @ [e])"
    by (rule load_record_history)
  also have "\<dots> = drop (length ((load_history h @ xs @ [x]) @ [e]) - HISTORY_MAX)
        ((load_history h @ xs @ [x]) @ [e])"
    unfolding snoc.IH by (rule keep_last_snoc)
  finally show ?case by simp
qed

text \<open>
  C7. Whatever the history file held before (absent, unreadable or any list), once more
  than 100 entries have been recorded one after the other, each through
  \<^verbatim>\<open>_save_history\<close>, the file holds exactly 100 entries: the last 100 recorded, in the
  order in which they were recorded.
\<close>

theorem history_bounded_fifo:
  assumes "HISTORY_MAX < length es"
  shows "load_history (foldl record_history h es) = drop (length es - 100) es
       \<and> length (load_history (foldl record_history h es)) = 100"
proof -
  from assms obtain ys y where es: "es = ys @ [y]"
    by (cases es rule: rev_cases) auto
  have "load_history (foldl record_history h es)
      = drop (length (load_history h @ es) - HISTORY_MAX) (load_history h @ es)"
    unfolding es using load_foldl_record_history [of h ys y] by simp
  also have "\<dots> = drop (length es - 100) es"
    using assms by (simp add: HISTORY_MAX_def)
  finally have main: "load_history (foldl record_history h es) = drop (length es - 100) es" .
  show ?thesis
    unfolding main using assms by (simp add: HISTORY_MAX_def)
qed

theorem history_bounded_fifo_witness:
  "HISTORY_MAX < length (map sample_entry [0..<103])
   \<and> load_history (foldl record_history None (map sample_entry [0..<103]))
       = map sample_entry [3..<103]
   \<and> length (load_history (foldl record_history None (map sample_entry [0..<103]))) = 100"
proof -
  have h: "HISTORY_MAX < length (map sample_entry [0..<103])"
    by (simp add: HISTORY_MAX_def)
  have d: "drop (length (map sample_entry [0..<103]) - 100) (map sample_entry [0..<103])
         = map sample_entry [3..<103]"
    by (simp add: drop_map)
  show ?thesis using h history_bounded_fifo [OF h, of None] d by simp
qed

subsection \<open>Time normalization\<close>

text \<open>
  C6. Normalization returns a datetime that carries a tzinfo as it is, with no
  conversion; to a naive datetime it attaches the configured zone and keeps the wall
  clock; applied twice it gives what it gives applied once.
\<close>

theorem normalize_zone_preserving:
  "(tzinfo d \<noteq> None \<longrightarrow> normalize tz (A_datetime d) = A_datetime d)
   \<and> (tzinfo d = None \<longrightarrow>
        (\<exists>d' z. normalize tz (A_datetime d) = A_datetime d' \<and> wall d' = wall d
           \<and> tzinfo d' = Some z \<and> tz_str z = zone tz
           \<and> utcoffset z (wall d) = zone_offset tz (wall d)))
   \<and> normalize tz (normalize tz v) = normalize tz v"
  by (cases v) (auto simp: normalize_def localize_def)

theorem normalize_zone_preserving_witness:
  "normalize melbourne (A_datetime \<lparr>wall = 1740819600000000, tzinfo = Some \<lparr>tz_str = ''UTC'', utcoffset = (\<lambda>w. 0)\<rparr>\<rparr>)
     = A_datetime \<lparr>wall = 1740819600000000, tzinfo = Some \<lparr>tz_str = ''UTC'', utcoffset = (\<lambda>w. 0)\<rparr>\<rparr>
   \<and> (\<exists>d' z. normalize melbourne (A_datetime \<lparr>wall = 1740819600000000, tzinfo = None\<rparr>) = A_datetime d'
         \<and> wall d' = 1740819600000000 \<and> tzinfo d' = Some z \<and> tz_str z = ''Australia/Melbourne''
         \<and> utcoffset z 1740819600000000 = 39600000000)"
  using normalize_zone_preserving [of "\<lparr>wall = 1740819600000000, tzinfo = Some \<lparr>tz_str = ''UTC'', utcoffset = (\<lambda>w. 0)\<rparr>\<rparr>" melbourne]
    normalize_zone_preserving [of "\<lparr>wall = 1740819600000000, tzinfo = None\<rparr>" melbourne]
  by (simp add: melbourne_def)

subsection \<open>The matcher\<close>

lemma within_tolerance_iff: "\<bar>total_seconds td\<bar> \<le> 18000 \<longleftrightarrow> \<bar>td\<bar> \<le> 18000 * 1000000"
proof -
  have "\<bar>total_seconds td\<bar> \<le> 18000 \<longleftrightarrow> real_of_int \<bar>td\<bar> \<le> real_of_int (18000 * 1000000)"
    by (simp add: total_seconds_def divide_le_eq)
  also have "\<dots> \<longleftrightarrow> \<bar>td\<bar> \<le> 18000 * 1000000"
    by (rule of_int_le_iff)
  finally show ?thesis .
qed

lemma zoned_dateTime_iff:
  "zoned_dateTime e \<longleftrightarrow> (\<exists>w off. r_start_dateTime e = Some (Iso_datetime w (Some off)))"
  by (auto simp: zoned_dateTime_def split: option.splits iso_text.splits)

lemma find_matched_skip:
  "no_dateTime e \<Longrightarrow> find_matched start smry (e # existing) = find_matched start smry existing"
  by (auto simp: no_dateTime_def)

lemma find_matched_zoned:
  assumes "tzinfo start \<noteq> None" "zoned_dateTime e"
  shows "find_matched start smry (e # existing) =
     (if qualifies start smry e then Inr (Some e) else find_matched start smry existing)"
  using assms
  by (auto simp: zoned_dateTime_iff qualifies_def fromisoformat_def dt_sub_def instant_def
      within_tolerance_iff)

lemma not_qualifies_no_dateTime: "no_dateTime e \<Longrightarrow> \<not> qualifies start smry e"
  by (auto simp: no_dateTime_def qualifies_def)

lemma find_matched_Inr:
  assumes "tzinfo start \<noteq> None"
  shows "find_matched start smry existing = Inr m \<Longrightarrow> m = List.find (qualifies start smry) existing"
proof (induction existing)
  case Nil
  then show ?case by simp
next
  case (Cons e existing)
  show ?case
  proof (cases "no_dateTime e")
    case True
    with Cons show ?thesis
      by (simp add: find_matched_skip not_qualifies_no_dateTime del: find_matched.simps)
  next
    case False
    show ?thesis
    proof (cases "zoned_dateTime e")
      case True
      with Cons assms show ?thesis
        by (simp add: find_matched_zoned del: find_matched.simps split: if_splits)
    next
      case nz: False
      from False nz obtain t where t: "r_start_dateTime e = Some t" "t \<noteq> Iso_empty"
        "\<forall>w off. t \<noteq> Iso_datetime w (Some off)"
        by (auto simp: no_dateTime_def zoned_dateTime_iff)
      with assms Cons.prems show ?thesis
        by (cases t) (auto simp: fromisoformat_def dt_sub_def split: option.splits)
    qed
  qed
qed

lemma find_matched_total:
  assumes "tzinfo start \<noteq> None" "\<forall>e\<in>set existing. no_dateTime e \<or> zoned_dateTime e"
  shows "find_matched start smry existing = Inr (List.find (qualifies start smry) existing)"
  using assms(2)
proof (induction existing)
  case Nil
  then show ?case by simp
next
  case (Cons e existing)
  then show ?case
    using assms(1)
    by (auto simp: find_matched_skip find_matched_zoned not_qualifies_no_dateTime
        simp del: find_matched.simps)
qed

lemma sync_matcher_first_qualifying:
  assumes "tzinfo start \<noteq> None"
  shows "(\<forall>m. find_matched start smry existing = Inr m \<longrightarrow>
            m = List.find (qualifies start smry) existing)
       \<and> ((\<forall>e\<in>set existing. no_dateTime e \<or> zoned_dateTime e) \<longrightarrow>
            find_matched start smry existing = Inr (List.find (qualifies start smry) existing))
       \<and> (\<forall>e. find_matched start smry existing = Inr (Some e) \<longrightarrow>
            r_summary e = Some smry
            \<and> (\<exists>i<length existing. existing ! i = e \<and> qualifies start smry e
                  \<and> (\<forall>j<i. \<not> qualifies start smry (existing ! j))))
       \<and> (find_matched start smry existing = Inr None \<longrightarrow>
            (\<forall>e\<in>set existing. \<not> qualifies start smry e))"
proof (intro conjI allI impI)
  fix m assume "find_matched start smry existing = Inr m"
  then show "m = List.find (qualifies start smry) existing"
    using assms by (rule find_matched_Inr [rotated])
next
  assume "\<forall>e\<in>set existing. no_dateTime e \<or> zoned_dateTime e"
  then show "find_matched start smry existing = Inr (List.find (qualifies start smry) existing)"
    using assms by (simp add: find_matched_total)
next
  fix e assume m: "find_matched start smry existing = Inr (Some e)"
  have f: "List.find (qualifies start smry) existing = Some e"
    using find_matched_Inr [OF assms m] by simp
  then obtain i where i: "i < length existing" "qualifies start smry (existing ! i)"
      "e = existing ! i" "\<forall>j<i. \<not> qualifies start smry (existing ! j)"
    unfolding find_Some_iff by blast
  then show "\<exists>i<length existing. existing ! i = e \<and> qualifies start smry e
       \<and> (\<forall>j<i. \<not> qualifies start smry (existing ! j))"
    by blast
  from i show "r_summary e = Some smry"
    by (auto simp: qualifies_def split: option.splits iso_text.splits)
next
  assume "find_matched start smry existing = Inr None"
  then have "List.find (qualifies start smry) existing = None"
    using find_matched_Inr [OF assms] by fastforce
  then show "\<forall>e\<in>set existing. \<not> qualifies start smry e"
    by (simp add: find_None_iff)
qed

lemma find_matched_append_skip:
  assumes "no_dateTime e"
  shows "find_matched start smry (pre @ e # post) = find_matched start smry (pre @ post)"
proof (induction pre)
  case Nil
  show ?case using assms by (simp add: find_matched_skip del: find_matched.simps)
next
  case (Cons a pre)
  then show ?case by (simp split: option.splits sum.splits)
qed

lemma find_matched_selected:
  "find_matched start smry existing = Inr (Some m) \<Longrightarrow> m \<in> set existing \<and> \<not> no_dateTime m"
proof (induction existing)
  case Nil
  then show ?case by simp
next
  case (Cons e existing)
  then show ?case
    by (auto simp: no_dateTime_def split: option.splits sum.splits if_splits)
qed

text \<open>
  C9. A candidate whose start carries no \<^verbatim>\<open>dateTime\<close> is passed over wherever it stands
  in the candidate list: the matcher gives the same result with and without it, never
  returns it, and returns no match (the create path) when every candidate is of that kind.
\<close>

theorem dateless_candidate_skipped:
  "(no_dateTime e \<longrightarrow>
      find_matched start smry (pre @ e # post) = find_matched start smry (pre @ post))
   \<and> (find_matched start smry existing = Inr (Some m) \<longrightarrow> \<not> no_dateTime m)
   \<and> ((\<forall>e\<in>set existing. no_dateTime e) \<longrightarrow> find_matched start smry existing = Inr None)"
proof (intro conjI impI)
  assume "no_dateTime e"
  then show "find_matched start smry (pre @ e # post) = find_matched start smry (pre @ post)"
    by (rule find_matched_append_skip)
next
  assume "find_matched start smry existing = Inr (Some m)"
  then show "\<not> no_dateTime m" by (simp add: find_matched_selected)
next
  assume "\<forall>e\<in>set existing. no_dateTime e"
  then show "find_matched start smry existing = Inr None"
    by (induction existing) (simp_all add: find_matched_skip del: find_matched.simps(2))
qed

theorem dateless_candidate_skipped_witness:
  "no_dateTime (all_day_candidate ''x'' ''Shift A'')
   \<and> find_matched (aware_hour 9) ''Shift A''
        [all_day_candidate ''x'' ''Shift A'', candidate ''c'' ''Shift A'' 32400]
      = Inr (Some (candidate ''c'' ''Shift A'' 32400))
   \<and> \<not> no_dateTime (candidate ''c'' ''Shift A'' 32400)
   \<and> find_matched (aware_hour 9) ''Shift A'' [all_day_candidate ''x'' ''Shift A''] = Inr None"
proof -
  have n: "no_dateTime (all_day_candidate ''x'' ''Shift A'')"
    by (simp add: no_dateTime_def all_day_candidate_def)
  have c: "find_matched (aware_hour 9) ''Shift A'' [candidate ''c'' ''Shift A'' 32400]
      = Inr (Some (candidate ''c'' ''Shift A'' 32400))"
    by (simp add: candidate_def aware_hour_def localize_def at_hour_def melbourne_def
        fromisoformat_def dt_sub_def total_seconds_def)
  have a: "\<forall>e\<in>set [all_day_candidate ''x'' ''Shift A'']. no_dateTime e"
    using n by simp
  show ?thesis
    using n c a
      dateless_candidate_skipped [of "all_day_candidate ''x'' ''Shift A''" "aware_hour 9"
        "''Shift A''" "[]" "[candidate ''c'' ''Shift A'' 32400]"
        "[all_day_candidate ''x'' ''Shift A'', candidate ''c'' ''Shift A'' 32400]"
        "candidate ''c'' ''Shift A'' 32400"]
      dateless_candidate_skipped [of "all_day_candidate ''x'' ''Shift A''" "aware_hour 9"
        "''Shift A''" "[]" "[]" "[all_day_candidate ''x'' ''Shift A'']"]
    by simp
qed

subsection \<open>The upload pass: counters, faults and aborts\<close>

lemmas run_defs = upload_events_to_gcal_def pytz_timezone_def try_except_def try_body_def
  build_g_event_def normalize_def localize_def isoformat_def dt_minus_def dt_plus_def
  timedelta_hours_def faithful_store_def store_list_def store_insert_def store_update_def
  text_instant_def in_window_def stored_start_def start_key_def as_item_def fresh_id_def
  fromisoformat_def dt_sub_def total_seconds_def tzinfo_str_def sample_config_def
  sample_tzdb_def melbourne_def at_hour_def shift_def all_day_def empty_env_def Let_def
  insert_failing_store_def unreachable_store_def bad_config_def isinstance_datetime_def
  payload_def aware_hour_def call_log_def default_log_def created_failing_log_def
  error_failing_log_def legacy_upload_events_to_gcal_def legacy_try_except_def
  legacy_try_body_def legacy_CALENDAR_ID_def

lemma call_log_lines [simp]: "lines (snd (call_log on_log l env)) = lines env @ [l]"
  by (simp add: call_log_def)

lemma call_log_calls [simp]: "calls (snd (call_log on_log l env)) = calls env"
  by (simp add: call_log_def)


lemma try_body_fault_quiet:
  assumes "\<forall>l w. fst (on_log l w) = None"
    and "try_body on_log service cfg event start end' body st env = (Some ex, st1, env1)"
  shows "st1 = st \<and> lines env1 = lines env"
  using assms unfolding try_body_def Let_def
  by (auto simp: call_log_def split: sum.splits option.splits)

lemma try_body_success:
  assumes "try_body on_log service cfg event start end' body st env = (None, st1, env1)"
  shows "errors st1 = errors st
    \<and> ((created st1 = created st + 1 \<and> updated st1 = updated st
          \<and> lines env1 = lines env @ [Created_line (summary event) start end'])
       \<or> (created st1 = created st \<and> updated st1 = updated st + 1
          \<and> lines env1 = lines env @ [Updated_line (summary event) start end']))"
  using assms unfolding try_body_def Let_def
  by (auto split: sum.splits option.splits)

lemma try_except_counts:
  assumes q: "\<forall>l w. fst (on_log l w) = None"
  shows "\<exists>st1. fst (try_except on_log service cfg event start end' body st env) = Inr st1
    \<and> created st1 + updated st1 + errors st1 = created st + updated st + errors st + 1
    \<and> created st \<le> created st1 \<and> updated st \<le> updated st1 \<and> errors st \<le> errors st1
    \<and> length (lines (snd (try_except on_log service cfg event start end' body st env)))
        = length (lines env) + 1"
proof (cases "try_body on_log service cfg event start end' body st env")
  case (fields r st' env')
  show ?thesis
  proof (cases r)
    case None
    with fields try_body_success [of on_log service cfg event start end' body st env st' env']
    show ?thesis by (auto simp: try_except_def)
  next
    case (Some ex)
    with fields q try_body_fault_quiet [OF q, of service cfg event start end' body st env ex st' env']
    show ?thesis by (auto simp: try_except_def call_log_def)
  qed
qed

lemma upload_loop_step:
  assumes "build_g_event ev (normalize tz (dtstart ev)) (normalize tz (dtend ev)) = Inr (s, e, body)"
    and "fst (try_except on_log service cfg ev s e body c env) = Inr c1"
  shows "upload_loop on_log service cfg tz (ev # evs) c env =
     upload_loop on_log service cfg tz evs c1
       (snd (try_except on_log service cfg ev s e body c env))"
  using assms by (simp add: split_beta split: sum.splits)

lemma upload_loop_counts:
  assumes q: "\<forall>l w. fst (on_log l w) = None"
  shows "upload_loop on_log service cfg tz events st env = (Inr st', env') \<Longrightarrow>
     created st' + updated st' + errors st' = created st + updated st + errors st + int (length events)
     \<and> created st \<le> created st' \<and> updated st \<le> updated st' \<and> errors st \<le> errors st'
     \<and> length (lines env') = length (lines env) + length events"
proof (induction events arbitrary: st env)
  case Nil
  then show ?case by simp
next
  case (Cons event events)
  from Cons.prems obtain start end' body where
    b: "build_g_event event (normalize tz (dtstart event)) (normalize tz (dtend event))
          = Inr (start, end', body)"
    by (auto split: sum.splits)
  from try_except_counts [OF q, of service cfg event start end' body st env]
  obtain st1 where t: "fst (try_except on_log service cfg event start end' body st env) = Inr st1"
    and c: "created st1 + updated st1 + errors st1 = created st + updated st + errors st + 1"
      "created st \<le> created st1" "updated st \<le> updated st1" "errors st \<le> errors st1"
      "length (lines (snd (try_except on_log service cfg event start end' body st env)))
        = length (lines env) + 1"
    by blast
  from Cons.prems have "upload_loop on_log service cfg tz events st1
      (snd (try_except on_log service cfg event start end' body st env)) = (Inr st', env')"
    by (simp only: upload_loop_step [OF b t])
  from Cons.IH [OF this] c show ?case by auto
qed

lemma build_g_event_datetimes:
  "isinstance_datetime (dtstart event) \<Longrightarrow> isinstance_datetime (dtend event) \<Longrightarrow>
     \<exists>start end' body. build_g_event event (normalize tz (dtstart event))
        (normalize tz (dtend event)) = Inr (start, end', body)"
  by (auto simp: build_g_event_def normalize_def isinstance_datetime_def split: dt_value.splits)



lemma upload_loop_returns:
  assumes q: "\<forall>l w. fst (on_log l w) = None"
  shows "\<forall>e\<in>set events. isinstance_datetime (dtstart e) \<and> isinstance_datetime (dtend e) \<Longrightarrow>
     \<exists>st' env'. upload_loop on_log service cfg tz events st env = (Inr st', env')"
proof (induction events arbitrary: st env)
  case Nil
  then show ?case by simp
next
  case (Cons event events)
  then obtain start end' body where
    b: "build_g_event event (normalize tz (dtstart event)) (normalize tz (dtend event))
          = Inr (start, end', body)"
    using build_g_event_datetimes [of event tz] by auto
  from try_except_counts [OF q, of service cfg event start end' body st env]
  obtain st1 where t: "fst (try_except on_log service cfg event start end' body st env) = Inr st1"
    by blast
  from Cons.prems have "\<forall>e\<in>set events. isinstance_datetime (dtstart e) \<and> isinstance_datetime (dtend e)"
    by simp
  from Cons.IH [OF this, of st1 "snd (try_except on_log service cfg event start end' body st env)"]
  show ?case by (simp only: upload_loop_step [OF b t])
qed


lemma legacy_try_except_quiet:
  assumes q: "\<forall>l w. fst (print l w) = None"
  shows "fst (legacy_try_except print service event start end' body env) = None
    \<and> length (lines (snd (legacy_try_except print service event start end' body env)))
        = length (lines env) + 1"
  using q unfolding legacy_try_except_def legacy_try_body_def Let_def
  by (auto simp: call_log_def split: sum.splits option.splits prod.splits)

lemma legacy_upload_loop_lines:
  assumes q: "\<forall>l w. fst (print l w) = None"
  shows "legacy_upload_loop print service tz events env = (None, env') \<Longrightarrow>
     length (lines env') = length (lines env) + length events"
proof (induction events arbitrary: env)
  case Nil
  then show ?case by simp
next
  case (Cons event events)
  from Cons.prems obtain start end' body where
    b: "build_g_event event (normalize tz (dtstart event)) (normalize tz (dtend event))
          = Inr (start, end', body)"
    by (auto split: sum.splits)
  note t = legacy_try_except_quiet [OF q, of service event start end' body env]
  from Cons.prems b t have "legacy_upload_loop print service tz events
      (snd (legacy_try_except print service event start end' body env)) = (None, env')"
    by (auto split: prod.splits option.splits)
  from Cons.IH [OF this] t show ?case by simp
qed

text \<open>
  C1, as stated, fails: the call of \<^verbatim>\<open>log\<close> stands inside the \<^verbatim>\<open>try\<close> statement after
  the increment of \<^verbatim>\<open>created\<close>, so with a callback that raises on that line one event
  is counted as created and again as an error: the counters returned for one event
  add up to 2.
\<close>

theorem one_event_counted_twice_counterexample:
  "fst (upload_events_to_gcal created_failing_log (Inr faithful_store) sample_tzdb sample_config
          [shift ''Shift A'' 9 17] empty_env)
     = Inr \<lparr>created = 1, updated = 0, errors = 1\<rparr>"
  by (simp add: run_defs)

text \<open>
  C1, amended. With a callback that does not raise, and times within the range of
  \<^verbatim>\<open>datetime\<close> arithmetic: whenever \<^verbatim>\<open>upload_events_to_gcal\<close>
  of \<^verbatim>\<open>sync.py\<close> returns its counters for a sequence of N events, created + updated +
  errors = N, no counter is negative, and one line was logged for each event; it does
  return them when the service was obtained, the zone resolved and every event has
  datetime-valued start and end, whatever the store does; for the empty sequence the
  counters returned are all zero. The function of \<^verbatim>\<open>HumanForce_Sync.py\<close> returns no
  counters; when it runs to its end it has printed one line for each event.
\<close>

theorem stats_account_for_every_event:
  assumes q: "\<forall>l w. fst (on_log l w) = None"
  shows "(\<forall>st env'. upload_events_to_gcal on_log gcs tzdb cfg events env = (Inr st, env') \<longrightarrow>
      created st + updated st + errors st = int (length events)
      \<and> 0 \<le> created st \<and> 0 \<le> updated st \<and> 0 \<le> errors st
      \<and> length (lines env') = length (lines env) + length events)
   \<and> (gcs = Inr service \<and> tzdb (TIMEZONE cfg) = Some tz
        \<and> (\<forall>e\<in>set events. isinstance_datetime (dtstart e) \<and> isinstance_datetime (dtend e)) \<longrightarrow>
        (\<exists>st env'. upload_events_to_gcal on_log gcs tzdb cfg events env = (Inr st, env')))
   \<and> (gcs = Inr service \<and> tzdb (TIMEZONE cfg) = Some tz \<longrightarrow>
        upload_events_to_gcal on_log gcs tzdb cfg [] env
          = (Inr \<lparr>created = 0, updated = 0, errors = 0\<rparr>, env))
   \<and> (\<forall>env'. legacy_upload_events_to_gcal on_log gcs tzdb events env = (None, env') \<longrightarrow>
        length (lines env') = length (lines env) + length events)"
proof (intro conjI allI impI)
  fix st env'
  assume r: "upload_events_to_gcal on_log gcs tzdb cfg events env = (Inr st, env')"
  then obtain service' tz' where
    "upload_loop on_log service' cfg tz' events \<lparr>created = 0, updated = 0, errors = 0\<rparr> env
       = (Inr st, env')"
    by (auto simp: upload_events_to_gcal_def split: sum.splits)
  from upload_loop_counts [OF q this]
  show "created st + updated st + errors st = int (length events)"
    "0 \<le> created st" "0 \<le> updated st" "0 \<le> errors st"
    "length (lines env') = length (lines env) + length events"
    by simp_all
next
  assume a: "gcs = Inr service \<and> tzdb (TIMEZONE cfg) = Some tz
        \<and> (\<forall>e\<in>set events. isinstance_datetime (dtstart e) \<and> isinstance_datetime (dtend e))"
  then show "\<exists>st env'. upload_events_to_gcal on_log gcs tzdb cfg events env = (Inr st, env')"
    using upload_loop_returns [OF q, of events service cfg tz
        "\<lparr>created = 0, updated = 0, errors = 0\<rparr>" env]
    by (simp add: upload_events_to_gcal_def pytz_timezone_def)
next
  assume "gcs = Inr service \<and> tzdb (TIMEZONE cfg) = Some tz"
  then show "upload_events_to_gcal on_log gcs tzdb cfg [] env
          = (Inr \<lparr>created = 0, updated = 0, errors = 0\<rparr>, env)"
    by (simp add: upload_events_to_gcal_def pytz_timezone_def)
next
  fix env'
  assume r: "legacy_upload_events_to_gcal on_log gcs tzdb events env = (None, env')"
  then obtain service' tz' where "legacy_upload_loop on_log service' tz' events env = (None, env')"
    by (auto simp: legacy_upload_events_to_gcal_def split: sum.splits)
  from legacy_upload_loop_lines [OF q this]
  show "length (lines env') = length (lines env) + length events" .
qed

theorem stats_account_for_every_event_witness:
  "(\<forall>l w. fst (default_log l (w::store)) = None)
   \<and> (\<exists>st env'. upload_events_to_gcal default_log (Inr faithful_store) sample_tzdb sample_config
       [shift ''Shift A'' 9 17, shift ''Shift B'' 18 22] empty_env = (Inr st, env')
     \<and> created st + updated st + errors st = 2
     \<and> length (lines env') = 2)
   \<and> length (lines (snd (legacy_upload_events_to_gcal default_log (Inr faithful_store) sample_tzdb
        [shift ''Shift A'' 9 17, shift ''Shift B'' 18 22] empty_env))) = 2"
proof -
  have q: "\<forall>l w. fst (default_log l (w::store)) = None"
    by (simp add: default_log_def)
  have h: "Inr faithful_store = Inr faithful_store \<and> sample_tzdb (TIMEZONE sample_config) = Some melbourne
      \<and> (\<forall>e\<in>set [shift ''Shift A'' 9 17, shift ''Shift B'' 18 22].
            isinstance_datetime (dtstart e) \<and> isinstance_datetime (dtend e))"
    by (simp add: sample_tzdb_def sample_config_def shift_def isinstance_datetime_def)
  note t = stats_account_for_every_event [OF q, where gcs = "Inr faithful_store" and tzdb = sample_tzdb
      and cfg = sample_config and events = "[shift ''Shift A'' 9 17, shift ''Shift B'' 18 22]"
      and env = empty_env and service = faithful_store and tz = melbourne]
  from t h obtain st env' where r: "upload_events_to_gcal default_log (Inr faithful_store) sample_tzdb
      sample_config [shift ''Shift A'' 9 17, shift ''Shift B'' 18 22] empty_env = (Inr st, env')"
    by blast
  with t have c: "created st + updated st + errors st = 2 \<and> length (lines env') = 2"
    by (simp add: empty_env_def)
  have "fst (legacy_upload_events_to_gcal default_log (Inr faithful_store) sample_tzdb
        [shift ''Shift A'' 9 17, shift ''Shift B'' 18 22] empty_env) = None"
    by (simp add: run_defs)
  then have "legacy_upload_events_to_gcal default_log (Inr faithful_store) sample_tzdb
        [shift ''Shift A'' 9 17, shift ''Shift B'' 18 22] empty_env
      = (None, snd (legacy_upload_events_to_gcal default_log (Inr faithful_store) sample_tzdb
        [shift ''Shift A'' 9 17, shift ''Shift B'' 18 22] empty_env))"
    by (metis prod.collapse)
  with t have "length (lines (snd (legacy_upload_events_to_gcal default_log (Inr faithful_store)
        sample_tzdb [shift ''Shift A'' 9 17, shift ''Shift B'' 18 22] empty_env))) = 2"
    by (simp add: empty_env_def)
  with q r c show ?thesis by blast
qed

text \<open>
  C8. When the configured zone name is not resolved, the run ends with
  \<^verbatim>\<open>UnknownTimeZoneError\<close> raised to the caller, whatever the events: the remote side,
  the trace of calls and the logged lines are as they were, so no call was issued and
  no outcome recorded. (If \<^verbatim>\<open>get_calendar_service\<close> itself raised, its exception is
  the one raised, with the same effect.)
\<close>

theorem unknown_timezone_aborts:
  assumes "tzdb (TIMEZONE cfg) = None"
  shows "upload_events_to_gcal on_log (Inr service) tzdb cfg events env
           = (Inl (UnknownTimeZoneError (TIMEZONE cfg)), env)
       \<and> (\<exists>ex. upload_events_to_gcal on_log gcs tzdb cfg events env = (Inl ex, env))"
  using assms
  by (auto simp: upload_events_to_gcal_def pytz_timezone_def split: sum.splits)

theorem unknown_timezone_aborts_witness:
  "sample_tzdb (TIMEZONE bad_config) = None
   \<and> upload_events_to_gcal default_log (Inr faithful_store) sample_tzdb bad_config
        [shift ''Shift A'' 9 17] empty_env
      = (Inl (UnknownTimeZoneError ''Mars/Olympus''), empty_env)"
proof -
  have h: "sample_tzdb (TIMEZONE bad_config) = None"
    by (simp add: sample_tzdb_def bad_config_def)
  show ?thesis
    using h unknown_timezone_aborts [where tzdb = sample_tzdb and cfg = bad_config
        and service = faithful_store and events = "[shift ''Shift A'' 9 17]" and env = empty_env
        and on_log = default_log]
    by (simp add: bad_config_def)
qed



text \<open>
  A fault of the store query, of the matching, of the update or of the insert leaves
  the body of the \<^verbatim>\<open>try\<close> statement with the counters untouched and no line logged.
\<close>

lemma events_list_fault:
  assumes "fst (events_list service
      \<lparr>calendarId = CALENDAR_ID cfg, timeMin = isoformat (dt_minus start (timedelta_hours 5)),
       timeMax = isoformat (dt_plus end' (timedelta_hours 5)), singleEvents = True,
       maxResults = 10, orderBy = ''startTime''\<rparr> (world env)) = Inl ex"
  shows "fst (try_body on_log service cfg event start end' body st env) = Some ex
    \<and> fst (snd (try_body on_log service cfg event start end' body st env)) = st
    \<and> lines (snd (snd (try_body on_log service cfg event start end' body st env))) = lines env"
  using assms by (simp add: try_body_def Let_def)

lemma matching_fault:
  assumes "fst (events_list service
      \<lparr>calendarId = CALENDAR_ID cfg, timeMin = isoformat (dt_minus start (timedelta_hours 5)),
       timeMax = isoformat (dt_plus end' (timedelta_hours 5)), singleEvents = True,
       maxResults = 10, orderBy = ''startTime''\<rparr> (world env)) = Inr existing"
    and "find_matched start (summary event) existing = Inl ex"
  shows "fst (try_body on_log service cfg event start end' body st env) = Some ex
    \<and> fst (snd (try_body on_log service cfg event start end' body st env)) = st
    \<and> lines (snd (snd (try_body on_log service cfg event start end' body st env))) = lines env"
  using assms by (simp add: try_body_def Let_def)

lemma events_update_fault:
  assumes "events_list service
      \<lparr>calendarId = CALENDAR_ID cfg, timeMin = isoformat (dt_minus start (timedelta_hours 5)),
       timeMax = isoformat (dt_plus end' (timedelta_hours 5)), singleEvents = True,
       maxResults = 10, orderBy = ''startTime''\<rparr> (world env) = (Inr existing, w1)"
    and "find_matched start (summary event) existing = Inr (Some matched)"
    and "r_id matched = Some event_id"
    and "fst (events_update service (CALENDAR_ID cfg) event_id body w1) = Some ex"
  shows "fst (try_body on_log service cfg event start end' body st env) = Some ex
    \<and> fst (snd (try_body on_log service cfg event start end' body st env)) = st
    \<and> lines (snd (snd (try_body on_log service cfg event start end' body st env))) = lines env"
  using assms by (simp add: try_body_def Let_def)

lemma events_insert_fault:
  assumes "events_list service
      \<lparr>calendarId = CALENDAR_ID cfg, timeMin = isoformat (dt_minus start (timedelta_hours 5)),
       timeMax = isoformat (dt_plus end' (timedelta_hours 5)), singleEvents = True,
       maxResults = 10, orderBy = ''startTime''\<rparr> (world env) = (Inr existing, w1)"
    and "find_matched start (summary event) existing = Inr None"
    and "fst (events_insert service (CALENDAR_ID cfg) body w1) = Some ex"
  shows "fst (try_body on_log service cfg event start end' body st env) = Some ex
    \<and> fst (snd (try_body on_log service cfg event start end' body st env)) = st
    \<and> lines (snd (snd (try_body on_log service cfg event start end' body st env))) = lines env"
  using assms by (simp add: try_body_def Let_def)




lemma try_body_calls:
  "\<exists>rest. calls (snd (snd (try_body on_log service cfg event start end' body st env))) =
     calls env @ List_call
       \<lparr>calendarId = CALENDAR_ID cfg, timeMin = isoformat (dt_minus start (timedelta_hours 5)),
        timeMax = isoformat (dt_plus end' (timedelta_hours 5)), singleEvents = True,
        maxResults = 10, orderBy = ''startTime''\<rparr> # rest
     \<and> (\<forall>c\<in>set rest. \<forall>r. c \<noteq> List_call r) \<and> length rest \<le> 1"
  unfolding try_body_def Let_def
  by (auto split: sum.splits option.splits)

lemma legacy_try_body_calls:
  "\<exists>rest. calls (snd (legacy_try_body print service event start end' body env)) =
     calls env @ List_call
       \<lparr>calendarId = legacy_CALENDAR_ID, timeMin = isoformat start,
        timeMax = isoformat end', singleEvents = True,
        maxResults = 5, orderBy = ''startTime''\<rparr> # rest
     \<and> (\<forall>c\<in>set rest. \<forall>r. c \<noteq> List_call r) \<and> length rest \<le> 1"
  unfolding legacy_try_body_def Let_def
  by (auto split: sum.splits option.splits)

text \<open>
  C5, as stated, fails for \<^verbatim>\<open>HumanForce_Sync.py\<close>: for a shift from 9:00 to 17:00
  its list call has \<open>timeMin\<close> at 9:00 and \<open>timeMax\<close> at 17:00, the event's own range
  with no expansion, and \<open>maxResults = 5\<close>.
\<close>

theorem unexpanded_window_counterexample:
  "calls (snd (legacy_upload_loop default_log faithful_store melbourne
      [shift ''Shift A'' 9 17] empty_env))
   = [List_call \<lparr>calendarId = ''your_calendar_id_here'',
        timeMin = Iso_datetime ((1740787200 + 9 * 3600) * 1000000) (Some 39600000000),
        timeMax = Iso_datetime ((1740787200 + 17 * 3600) * 1000000) (Some 39600000000),
        singleEvents = True, maxResults = 5, orderBy = ''startTime''\<rparr>,
      Insert_call ''your_calendar_id_here'' (payload ''Shift A'' 9 17)]"
  by (simp add: run_defs)

text \<open>
  C5, amended. For an event whose normalized start and end are datetimes, each script
  issues exactly one list call, ordered by \<^verbatim>\<open>startTime\<close>, and at most one further
  call (update or insert). In \<^verbatim>\<open>sync.py\<close>, \<open>timeMin\<close> is the start minus 5 hours and
  \<open>timeMax\<close> the end plus 5 hours (wall-clock arithmetic, same tzinfo), with
  \<open>maxResults = 10\<close>. In \<^verbatim>\<open>HumanForce_Sync.py\<close>, \<open>timeMin\<close> is the start and \<open>timeMax\<close>
  the end, with \<open>maxResults = 5\<close>.
\<close>

theorem candidate_window_request:
  assumes "normalize tz (dtstart event) = A_datetime start"
      and "normalize tz (dtend event) = A_datetime end'"
  shows "(\<exists>rest. calls (snd (upload_loop on_log service cfg tz [event] st env)) =
           calls env @ List_call
             \<lparr>calendarId = CALENDAR_ID cfg,
              timeMin = Iso_datetime (wall start - 5 * 3600 * 1000000)
                (map_option (\<lambda>z. utcoffset z (wall start - 5 * 3600 * 1000000)) (tzinfo start)),
              timeMax = Iso_datetime (wall end' + 5 * 3600 * 1000000)
                (map_option (\<lambda>z. utcoffset z (wall end' + 5 * 3600 * 1000000)) (tzinfo end')),
              singleEvents = True, maxResults = 10, orderBy = ''startTime''\<rparr> # rest
         \<and> (\<forall>c\<in>set rest. \<forall>r. c \<noteq> List_call r) \<and> length rest \<le> 1)
       \<and> (\<exists>rest. calls (snd (legacy_upload_loop on_log service tz [event] env)) =
           calls env @ List_call
             \<lparr>calendarId = legacy_CALENDAR_ID,
              timeMin = Iso_datetime (wall start)
                (map_option (\<lambda>z. utcoffset z (wall start)) (tzinfo start)),
              timeMax = Iso_datetime (wall end')
                (map_option (\<lambda>z. utcoffset z (wall end')) (tzinfo end')),
              singleEvents = True, maxResults = 5, orderBy = ''startTime''\<rparr> # rest
         \<and> (\<forall>c\<in>set rest. \<forall>r. c \<noteq> List_call r) \<and> length rest \<le> 1)"
proof
  obtain body where b: "build_g_event event (normalize tz (dtstart event))
      (normalize tz (dtend event)) = Inr (start, end', body)"
    using assms by (simp add: build_g_event_def)
  obtain r st1 env1 where t: "try_body on_log service cfg event start end' body st env = (r, st1, env1)"
    by (cases "try_body on_log service cfg event start end' body st env")
  have c: "calls (snd (upload_loop on_log service cfg tz [event] st env)) = calls env1"
    using b t by (cases r) (simp_all add: try_except_def split: option.splits)
  from try_body_calls [of on_log service cfg event start end' body st env] t
  show "\<exists>rest. calls (snd (upload_loop on_log service cfg tz [event] st env)) =
           calls env @ List_call
             \<lparr>calendarId = CALENDAR_ID cfg,
              timeMin = Iso_datetime (wall start - 5 * 3600 * 1000000)
                (map_option (\<lambda>z. utcoffset z (wall start - 5 * 3600 * 1000000)) (tzinfo start)),
              timeMax = Iso_datetime (wall end' + 5 * 3600 * 1000000)
                (map_option (\<lambda>z. utcoffset z (wall end' + 5 * 3600 * 1000000)) (tzinfo end')),
              singleEvents = True, maxResults = 10, orderBy = ''startTime''\<rparr> # rest
         \<and> (\<forall>c\<in>set rest. \<forall>r. c \<noteq> List_call r) \<and> length rest \<le> 1"
    unfolding c
    by (simp add: isoformat_def dt_minus_def dt_plus_def timedelta_hours_def)
  obtain lr lenv1 where lt: "legacy_try_body on_log service event start end' body env = (lr, lenv1)"
    by (cases "legacy_try_body on_log service event start end' body env")
  have "snd (legacy_upload_loop on_log service tz [event] env)
      = snd (legacy_try_except on_log service event start end' body env)"
    using b by (simp split: prod.splits option.splits)
  moreover have "calls (snd (legacy_try_except on_log service event start end' body env))
      = calls lenv1"
    using lt by (cases lr) (simp_all add: legacy_try_except_def)
  ultimately have lc: "calls (snd (legacy_upload_loop on_log service tz [event] env)) = calls lenv1"
    by simp
  from legacy_try_body_calls [of on_log service event start end' body env] lt
  show "\<exists>rest. calls (snd (legacy_upload_loop on_log service tz [event] env)) =
           calls env @ List_call
             \<lparr>calendarId = legacy_CALENDAR_ID,
              timeMin = Iso_datetime (wall start)
                (map_option (\<lambda>z. utcoffset z (wall start)) (tzinfo start)),
              timeMax = Iso_datetime (wall end')
                (map_option (\<lambda>z. utcoffset z (wall end')) (tzinfo end')),
              singleEvents = True, maxResults = 5, orderBy = ''startTime''\<rparr> # rest
         \<and> (\<forall>c\<in>set rest. \<forall>r. c \<noteq> List_call r) \<and> length rest \<le> 1"
    unfolding lc by (simp add: isoformat_def)
qed

theorem candidate_window_request_witness:
  "normalize melbourne (dtstart (shift ''Shift A'' 9 17)) = A_datetime (aware_hour 9)
   \<and> normalize melbourne (dtend (shift ''Shift A'' 9 17)) = A_datetime (aware_hour 17)
   \<and> (\<exists>rest. calls (snd (upload_loop default_log faithful_store sample_config melbourne
          [shift ''Shift A'' 9 17] \<lparr>created = 0, updated = 0, errors = 0\<rparr> empty_env))
      = List_call \<lparr>calendarId = ''primary'',
           timeMin = Iso_datetime ((1740787200 + 4 * 3600) * 1000000) (Some 39600000000),
           timeMax = Iso_datetime ((1740787200 + 22 * 3600) * 1000000) (Some 39600000000),
           singleEvents = True, maxResults = 10, orderBy = ''startTime''\<rparr> # rest
        \<and> length rest \<le> 1)
   \<and> (\<exists>rest. calls (snd (legacy_upload_loop default_log faithful_store melbourne
          [shift ''Shift A'' 9 17] empty_env))
      = List_call \<lparr>calendarId = ''your_calendar_id_here'',
           timeMin = Iso_datetime ((1740787200 + 9 * 3600) * 1000000) (Some 39600000000),
           timeMax = Iso_datetime ((1740787200 + 17 * 3600) * 1000000) (Some 39600000000),
           singleEvents = True, maxResults = 5, orderBy = ''startTime''\<rparr> # rest
        \<and> length rest \<le> 1)"
proof -
  have h1: "normalize melbourne (dtstart (shift ''Shift A'' 9 17)) = A_datetime (aware_hour 9)"
    by (simp add: run_defs)
  have h2: "normalize melbourne (dtend (shift ''Shift A'' 9 17)) = A_datetime (aware_hour 17)"
    by (simp add: run_defs)
  note t = candidate_window_request [OF h1 h2, of default_log faithful_store sample_config
      "\<lparr>created = 0, updated = 0, errors = 0\<rparr>" empty_env]
  have v: "wall (aware_hour 9) - 5 * 3600 * 1000000 = (1740787200 + 4 * 3600) * 1000000"
    "wall (aware_hour 17) + 5 * 3600 * 1000000 = (1740787200 + 22 * 3600) * 1000000"
    "wall (aware_hour 9) = (1740787200 + 9 * 3600) * 1000000"
    "wall (aware_hour 17) = (1740787200 + 17 * 3600) * 1000000"
    "map_option (\<lambda>z. utcoffset z w) (tzinfo (aware_hour 9)) = Some 39600000000"
    "map_option (\<lambda>z. utcoffset z w) (tzinfo (aware_hour 17)) = Some 39600000000"
    "calls empty_env = []" "CALENDAR_ID sample_config = ''primary''"
    "legacy_CALENDAR_ID = ''your_calendar_id_here''"
    for w
    by (simp_all add: aware_hour_def localize_def at_hour_def melbourne_def empty_env_def
        sample_config_def legacy_CALENDAR_ID_def)
  from t have "(\<exists>rest. calls (snd (upload_loop default_log faithful_store sample_config melbourne
          [shift ''Shift A'' 9 17] \<lparr>created = 0, updated = 0, errors = 0\<rparr> empty_env))
      = List_call \<lparr>calendarId = ''primary'',
           timeMin = Iso_datetime ((1740787200 + 4 * 3600) * 1000000) (Some 39600000000),
           timeMax = Iso_datetime ((1740787200 + 22 * 3600) * 1000000) (Some 39600000000),
           singleEvents = True, maxResults = 10, orderBy = ''startTime''\<rparr> # rest
        \<and> length rest \<le> 1)
   \<and> (\<exists>rest. calls (snd (legacy_upload_loop default_log faithful_store melbourne
          [shift ''Shift A'' 9 17] empty_env))
      = List_call \<lparr>calendarId = ''your_calendar_id_here'',
           timeMin = Iso_datetime ((1740787200 + 9 * 3600) * 1000000) (Some 39600000000),
           timeMax = Iso_datetime ((1740787200 + 17 * 3600) * 1000000) (Some 39600000000),
           singleEvents = True, maxResults = 5, orderBy = ''startTime''\<rparr> # rest
        \<and> length rest \<le> 1)"
    unfolding v by auto
  with h1 h2 show ?thesis by blast
qed

subsection \<open>The matchers of the two scripts\<close>

lemma legacy_find_matched_skip:
  "legacy_skipped e \<Longrightarrow>
     legacy_find_matched start (e # existing) = legacy_find_matched start existing"
  by (auto simp: legacy_skipped_def split: option.splits)

lemma legacy_find_matched_readable:
  assumes "tzinfo start \<noteq> None" "\<not> legacy_skipped e" "legacy_readable e"
  shows "legacy_find_matched start (e # existing) =
     (if legacy_qualifies start e then Inr (Some e) else legacy_find_matched start existing)"
  using assms
  by (auto simp: legacy_readable_def legacy_qualifies_def legacy_skipped_def zoned_dateTime_iff
      fromisoformat_def dt_sub_def instant_def within_tolerance_iff
      split: option.splits iso_text.splits)

lemma not_legacy_qualifies_skipped: "legacy_skipped e \<Longrightarrow> \<not> legacy_qualifies start e"
  by (auto simp: legacy_skipped_def legacy_qualifies_def legacy_readable_def zoned_dateTime_iff)

lemma legacy_find_matched_Inr:
  assumes "tzinfo start \<noteq> None"
  shows "legacy_find_matched start existing = Inr m \<Longrightarrow>
     m = List.find (legacy_qualifies start) existing"
proof (induction existing)
  case Nil
  then show ?case by simp
next
  case (Cons e existing)
  show ?case
  proof (cases "legacy_skipped e")
    case True
    with Cons show ?thesis
      by (simp add: legacy_find_matched_skip not_legacy_qualifies_skipped
          del: legacy_find_matched.simps)
  next
    case False
    show ?thesis
    proof (cases "legacy_readable e")
      case True
      with Cons assms False show ?thesis
        by (simp add: legacy_find_matched_readable del: legacy_find_matched.simps
            split: if_splits)
    next
      case nr: False
      from False obtain t u where t: "r_start_dateTime e = Some t" "t \<noteq> Iso_empty"
        "r_end_dateTime e = Some u" "u \<noteq> Iso_empty"
        by (auto simp: legacy_skipped_def)
      with nr assms Cons.prems show ?thesis
        by (cases t; cases u)
          (auto simp: legacy_readable_def zoned_dateTime_iff fromisoformat_def dt_sub_def
            split: option.splits)
    qed
  qed
qed

lemma legacy_find_matched_total:
  assumes "tzinfo start \<noteq> None" "\<forall>e\<in>set existing. legacy_skipped e \<or> legacy_readable e"
  shows "legacy_find_matched start existing = Inr (List.find (legacy_qualifies start) existing)"
  using assms(2)
proof (induction existing)
  case Nil
  then show ?case by simp
next
  case (Cons e existing)
  show ?case
  proof (cases "legacy_skipped e")
    case True
    with Cons show ?thesis
      by (simp add: legacy_find_matched_skip not_legacy_qualifies_skipped
          del: legacy_find_matched.simps)
  next
    case False
    with Cons assms(1) show ?thesis
      by (simp add: legacy_find_matched_readable del: legacy_find_matched.simps)
  qed
qed

text \<open>
  C2, as stated, fails for \<^verbatim>\<open>HumanForce_Sync.py\<close>: its matcher selects a candidate
  whose summary differs from the source summary, and the run overwrites that remote
  event with the shift.
\<close>

theorem differing_summary_selected_counterexample:
  "legacy_find_matched (aware_hour 9) [candidate ''d1'' ''Dentist'' 32400]
     = Inr (Some (candidate ''d1'' ''Dentist'' 32400))
   \<and> calls (snd (legacy_upload_loop default_log faithful_store melbourne
        [shift ''Shift A'' 9 17]
        \<lparr>world = [(''d1'', payload ''Dentist'' 9 10)], calls = [], lines = []\<rparr>))
     = [List_call \<lparr>calendarId = ''your_calendar_id_here'',
          timeMin = Iso_datetime ((1740787200 + 9 * 3600) * 1000000) (Some 39600000000),
          timeMax = Iso_datetime ((1740787200 + 17 * 3600) * 1000000) (Some 39600000000),
          singleEvents = True, maxResults = 5, orderBy = ''startTime''\<rparr>,
        Update_call ''your_calendar_id_here'' ''d1'' (payload ''Shift A'' 9 17)]"
  by (simp add: run_defs candidate_def)

text \<open>
  C2, amended. For a source start that carries a zone (as every start does once
  normalized): the matcher of \<^verbatim>\<open>sync.py\<close> returns the first candidate, in candidate
  order, whose start time differs from the source start by at most 18000 seconds and
  whose summary equals the source summary; a candidate with another summary is never
  returned; when no candidate meets both conditions it returns no match. The matcher
  of \<^verbatim>\<open>HumanForce_Sync.py\<close> returns the first candidate that has a start and an end
  \<^verbatim>\<open>dateTime\<close> and whose start time differs from the source start by at most 18000
  seconds, whatever its summary. Each returns at all whenever every candidate it does
  not pass over has readable times.
\<close>

theorem matcher_first_qualifying:
  assumes "tzinfo start \<noteq> None"
  shows "(\<forall>m. find_matched start smry existing = Inr m \<longrightarrow>
            m = List.find (qualifies start smry) existing)
       \<and> ((\<forall>e\<in>set existing. no_dateTime e \<or> zoned_dateTime e) \<longrightarrow>
            find_matched start smry existing = Inr (List.find (qualifies start smry) existing))
       \<and> (\<forall>e. find_matched start smry existing = Inr (Some e) \<longrightarrow>
            r_summary e = Some smry
            \<and> (\<exists>i<length existing. existing ! i = e \<and> qualifies start smry e
                  \<and> (\<forall>j<i. \<not> qualifies start smry (existing ! j))))
       \<and> (find_matched start smry existing = Inr None \<longrightarrow>
            (\<forall>e\<in>set existing. \<not> qualifies start smry e))
       \<and> (\<forall>m. legacy_find_matched start existing = Inr m \<longrightarrow>
            m = List.find (legacy_qualifies start) existing)
       \<and> ((\<forall>e\<in>set existing. legacy_skipped e \<or> legacy_readable e) \<longrightarrow>
            legacy_find_matched start existing
              = Inr (List.find (legacy_qualifies start) existing))"
  using sync_matcher_first_qualifying [OF assms, of smry existing]
    legacy_find_matched_Inr [OF assms, of existing]
    legacy_find_matched_total [OF assms, of existing]
  by blast

theorem matcher_first_qualifying_witness:
  "tzinfo (aware_hour 9) \<noteq> None
   \<and> find_matched (aware_hour 9) ''Shift A''
       [candidate ''a'' ''Dentist'' 32400, candidate ''b'' ''Shift A'' 50401,
        candidate ''c'' ''Shift A'' 50400, candidate ''d'' ''Shift A'' 32400]
     = Inr (Some (candidate ''c'' ''Shift A'' 50400))
   \<and> find_matched (aware_hour 9) ''Shift A''
       [candidate ''a'' ''Dentist'' 32400, candidate ''b'' ''Shift A'' 50401] = Inr None
   \<and> legacy_find_matched (aware_hour 9)
       [candidate ''a'' ''Dentist'' 32400, candidate ''b'' ''Shift A'' 50401]
     = Inr (Some (candidate ''a'' ''Dentist'' 32400))"
proof -
  have h: "tzinfo (aware_hour 9) \<noteq> None"
    by (simp add: aware_hour_def localize_def)
  have z: "\<forall>e\<in>set [candidate ''a'' ''Dentist'' 32400, candidate ''b'' ''Shift A'' 50401,
        candidate ''c'' ''Shift A'' 50400, candidate ''d'' ''Shift A'' 32400].
        no_dateTime e \<or> zoned_dateTime e"
    by (simp add: zoned_dateTime_iff candidate_def)
  have z2: "\<forall>e\<in>set [candidate ''a'' ''Dentist'' 32400, candidate ''b'' ''Shift A'' 50401].
        no_dateTime e \<or> zoned_dateTime e"
    by (simp add: zoned_dateTime_iff candidate_def)
  have q: "\<not> qualifies (aware_hour 9) ''Shift A'' (candidate ''a'' ''Dentist'' 32400)"
    "\<not> qualifies (aware_hour 9) ''Shift A'' (candidate ''b'' ''Shift A'' 50401)"
    "qualifies (aware_hour 9) ''Shift A'' (candidate ''c'' ''Shift A'' 50400)"
    by (simp_all add: qualifies_def candidate_def aware_hour_def localize_def at_hour_def
        instant_def melbourne_def)
  have f1: "find_matched (aware_hour 9) ''Shift A''
       [candidate ''a'' ''Dentist'' 32400, candidate ''b'' ''Shift A'' 50401,
        candidate ''c'' ''Shift A'' 50400, candidate ''d'' ''Shift A'' 32400]
     = Inr (List.find (qualifies (aware_hour 9) ''Shift A'')
       [candidate ''a'' ''Dentist'' 32400, candidate ''b'' ''Shift A'' 50401,
        candidate ''c'' ''Shift A'' 50400, candidate ''d'' ''Shift A'' 32400])"
    using z matcher_first_qualifying [OF h, of "''Shift A''"
        "[candidate ''a'' ''Dentist'' 32400, candidate ''b'' ''Shift A'' 50401,
          candidate ''c'' ''Shift A'' 50400, candidate ''d'' ''Shift A'' 32400]"]
    by blast
  have f2: "find_matched (aware_hour 9) ''Shift A''
       [candidate ''a'' ''Dentist'' 32400, candidate ''b'' ''Shift A'' 50401]
     = Inr (List.find (qualifies (aware_hour 9) ''Shift A'')
       [candidate ''a'' ''Dentist'' 32400, candidate ''b'' ''Shift A'' 50401])"
    using z2 matcher_first_qualifying [OF h, of "''Shift A''"
        "[candidate ''a'' ''Dentist'' 32400, candidate ''b'' ''Shift A'' 50401]"]
    by blast
  have lz: "\<forall>e\<in>set [candidate ''a'' ''Dentist'' 32400, candidate ''b'' ''Shift A'' 50401].
        legacy_skipped e \<or> legacy_readable e"
    by (simp add: legacy_readable_def zoned_dateTime_iff candidate_def)
  have lq: "legacy_qualifies (aware_hour 9) (candidate ''a'' ''Dentist'' 32400)"
    by (simp add: legacy_qualifies_def legacy_readable_def zoned_dateTime_iff candidate_def
        aware_hour_def localize_def at_hour_def instant_def melbourne_def)
  have f3: "legacy_find_matched (aware_hour 9)
       [candidate ''a'' ''Dentist'' 32400, candidate ''b'' ''Shift A'' 50401]
     = Inr (List.find (legacy_qualifies (aware_hour 9))
       [candidate ''a'' ''Dentist'' 32400, candidate ''b'' ''Shift A'' 50401])"
    using lz matcher_first_qualifying [OF h, of "''Shift A''"
        "[candidate ''a'' ''Dentist'' 32400, candidate ''b'' ''Shift A'' 50401]"]
    by blast
  show ?thesis
    unfolding f1 f2 f3 using h q lq by simp
qed

subsection \<open>Two runs in a row against a faithful store\<close>


lemma tzinfo_dt_minus [simp]: "tzinfo (dt_minus d td) = tzinfo d"
  by (simp add: dt_minus_def)

lemma tzinfo_dt_plus [simp]: "tzinfo (dt_plus d td) = tzinfo d"
  by (simp add: dt_plus_def)




































end
